theory Spec2Isabelle
  imports Main "HOL-Library.Sublist"
begin

section \<open>JavaScript primitives used by \<open>bin/yarn2nix.js\<close>\<close>

text \<open>
  Strings are character lists. \<open>js_split c s\<close> is \<^verbatim>\<open>s.split(c)\<close> for a one-character
  separator: every occurrence of the separator cuts, and the result is never empty
  (\<^verbatim>\<open>"".split("#")\<close> is \<^verbatim>\<open>[""]\<close>). \<open>js_split_limit\<close> is \<^verbatim>\<open>s.split(c, n)\<close>, which
  cuts in the same way and keeps the first \<open>n\<close> pieces.
\<close>

fun js_split :: "char \<Rightarrow> string \<Rightarrow> string list" where
  "js_split c [] = [[]]"
| "js_split c (x # xs) =
     (if x = c then [] # js_split c xs
      else (case js_split c xs of [] \<Rightarrow> [[x]] | p # ps \<Rightarrow> (x # p) # ps))"

definition js_split_limit :: "char \<Rightarrow> nat \<Rightarrow> string \<Rightarrow> string list" where
  "js_split_limit c n s = take n (js_split c s)"

text \<open>
  The array pattern \<^verbatim>\<open>let [a, b] = xs\<close>: a position beyond the end of the array gives
  \<^verbatim>\<open>undefined\<close>, here \<open>None\<close>.
\<close>

definition destructure2 :: "'a list \<Rightarrow> 'a option \<times> 'a option" where
  "destructure2 xs =
     (case xs of [] \<Rightarrow> (None, None) | [a] \<Rightarrow> (Some a, None) | a # b # _ \<Rightarrow> (Some a, Some b))"

text \<open>A template placeholder \<^verbatim>\<open>${v}\<close> prints \<^verbatim>\<open>undefined\<close> for an undefined value.\<close>

definition js_string :: "string option \<Rightarrow> string" where
  "js_string v = (case v of None \<Rightarrow> ''undefined'' | Some s \<Rightarrow> s)"

text \<open>The class \<^verbatim>\<open>\w\<close> of a regular expression without the unicode flag: \<^verbatim>\<open>[A-Za-z0-9_]\<close>.\<close>

definition word_char :: "char \<Rightarrow> bool" where
  "word_char c =
     (let n = (of_char c :: nat)
      in (97 \<le> n \<and> n \<le> 122) \<or> (65 \<le> n \<and> n \<le> 90) \<or> (48 \<le> n \<and> n \<le> 57) \<or> n = 95)"

text \<open>
  \<^verbatim>\<open>depRange.match(/(^@\w+)\//)\<close>, returning group 1. The group is anchored at the start,
  so the key has to begin with \<^verbatim>\<open>@\<close>; \<^verbatim>\<open>\w+\<close> is greedy and takes the longest run of word
  characters, which must not be empty; a slash has to follow. Backtracking to a shorter
  run cannot help, since the character after a shorter run is a word character.
\<close>

definition namespaceMatch :: "string \<Rightarrow> string option" where
  "namespaceMatch depRange =
     (case depRange of
        [] \<Rightarrow> None
      | c # cs \<Rightarrow>
          if c = CHR ''@'' \<and> takeWhile word_char cs \<noteq> []
             \<and> (case dropWhile word_char cs of [] \<Rightarrow> False | d # _ \<Rightarrow> d = CHR ''/'')
          then Some (c # takeWhile word_char cs)
          else None)"

section \<open>The lockfile\<close>

text \<open>
  An entry of the parsed lockfile. The program reads \<open>resolved\<close> and \<open>sha256\<close>; a field
  that the object does not have is \<open>None\<close>. Both are taken to be strings when present.
  \<open>other\<close> stands for all remaining fields (version, integrity, dependencies, ...).
  The lockfile object is the list of its keys with their entries, in the order in which
  \<^verbatim>\<open>for (key in obj)\<close> enumerates them.
\<close>

record 'o entry =
  resolved :: "string option"
  sha256 :: "string option"
  other :: 'o

type_synonym 'o lockfile = "(string \<times> 'o entry) list"

datatype error = TypeError | RequestFailed nat | TransportError | ExecError | ParseError

section \<open>\<open>is_https_git\<close>\<close>

definition is_https_git :: "string \<Rightarrow> string option" where
  "is_https_git url =
     (if prefix ''git+https://'' url then Some (drop 4 url)
      else if suffix ''.git'' url then Some url
      else None)"

section \<open>Splitting \<open>resolved\<close>\<close>

text \<open>
  Line 58 (\<open>generateNix\<close>): \<^verbatim>\<open>let [pkg_url, sha1] = dep.resolved.split("#")\<close>, and
  line 126 (\<open>updateResolvedSha1\<close>): \<^verbatim>\<open>let [url, sha1] = pkg.resolved.split("#", 2)\<close>.
\<close>

definition split_generateNix :: "string \<Rightarrow> string option \<times> string option" where
  "split_generateNix r = destructure2 (js_split CHR ''#'' r)"

definition split_updateResolvedSha1 :: "string \<Rightarrow> string option \<times> string option" where
  "split_updateResolvedSha1 r = destructure2 (js_split_limit CHR ''#'' 2 r)"

text \<open>
  The split as the specification words it: at the last \<^verbatim>\<open>#\<close>, the url being everything
  before it and the token everything after it. Without a \<^verbatim>\<open>#\<close> there is no token.
\<close>

definition spec_split_last :: "string \<Rightarrow> string option \<times> string option" where
  "spec_split_last r =
     (if CHR ''#'' \<in> set r
      then (Some (rev (tl (dropWhile (\<lambda>c. c \<noteq> CHR ''#'') (rev r)))),
            Some (rev (takeWhile (\<lambda>c. c \<noteq> CHR ''#'') (rev r))))
      else (Some r, None))"

section \<open>The outside world\<close>

text \<open>
  The program calls the network, a hash function, an external tool, the Node library and
  the lockfile library. None of them is part of the program; they are parameters:
  \<^item> \<open>https_get url\<close>: the response to \<^verbatim>\<open>https.get(url)\<close>, its status code and the chunks
    of its body, or the error of the transport;
  \<^item> \<open>sha1_hex bytes\<close>: the hexadecimal SHA-1 digest of a byte string;
  \<^item> \<open>nix_prefetch_git url rev\<close>: the \<^verbatim>\<open>sha256\<close> member of the JSON document printed by
    \<^verbatim>\<open>nix-prefetch-git --quiet url rev\<close>, or the error of running or reading it;
  \<^item> \<open>url_basename u\<close>: \<^verbatim>\<open>path.basename(url.parse(u).pathname)\<close>, \<open>None\<close> where the
    library throws (a url without a path name);
  \<^item> \<open>lockfile_parse\<close>, \<open>lockfile_stringify\<close>: the parser (\<open>None\<close> unless the result has
    type \<^verbatim>\<open>success\<close>) and the printer of the lockfile library.
\<close>

record 'o world =
  https_get :: "string \<Rightarrow> error + nat \<times> string list"
  sha1_hex :: "string \<Rightarrow> string"
  nix_prefetch_git :: "string \<Rightarrow> string \<Rightarrow> error + string"
  url_basename :: "string \<Rightarrow> string option"
  lockfile_parse :: "string \<Rightarrow> 'o lockfile option"
  lockfile_stringify :: "'o lockfile \<Rightarrow> string"

section \<open>The Reconciler\<close>

text \<open>
  \<open>getSha1\<close>: the promise is rejected when the status code is not 200 or the response
  reports an error; otherwise every chunk is fed to the hash and the promise resolves to
  the digest of the whole body.
\<close>

definition getSha1 :: "'o world \<Rightarrow> string \<Rightarrow> error + string" where
  "getSha1 w url =
     (case https_get w url of
        Inl e \<Rightarrow> Inl e
      | Inr (statusCode, chunks) \<Rightarrow>
          if statusCode \<noteq> 200 then Inl (RequestFailed statusCode)
          else Inr (sha1_hex w (concat chunks)))"

definition getGitSha1 :: "'o world \<Rightarrow> string \<Rightarrow> string \<Rightarrow> error + string" where
  "getGitSha1 w url rev' = nix_prefetch_git w url rev'"

text \<open>\<^verbatim>\<open>!v\<close> for a value that is a string or undefined.\<close>

definition falsy :: "string option \<Rightarrow> bool" where
  "falsy v = (v = None \<or> v = Some [])"

text \<open>
  \<open>updateResolvedSha1\<close> mutates the entry it is given; the model returns the entry after
  the call, or the error that rejects the promise. Line 131 assigns a string in double
  quotes, which JavaScript does not interpolate.
\<close>

definition updateResolvedSha1 :: "'o world \<Rightarrow> 'o entry \<Rightarrow> error + 'o entry" where
  "updateResolvedSha1 w pkg =
     (case resolved pkg of
        None \<Rightarrow> Inr pkg
      | Some r \<Rightarrow>
          if r = [] then Inr pkg
          else (case split_updateResolvedSha1 r of
                  (None, sha1) \<Rightarrow> Inl TypeError
                | (Some url, sha1) \<Rightarrow>
                    if falsy sha1 then
                      (case getSha1 w url of
                         Inl e \<Rightarrow> Inl e
                       | Inr pkg_sha1 \<Rightarrow>
                           Inr (pkg\<lparr>resolved := Some ''${url}#${pkg_sha1}''\<rparr>))
                    else
                      (case is_https_git url of
                         Some git_url \<Rightarrow>
                           (case getGitSha1 w git_url (js_string sha1) of
                              Inl e \<Rightarrow> Inl e
                            | Inr pkg_sha256 \<Rightarrow> Inr (pkg\<lparr>sha256 := Some pkg_sha256\<rparr>))
                       | None \<Rightarrow> Inr pkg)))"

text \<open>
  \<^verbatim>\<open>Promise.all(pkgs.map(updateResolvedSha1))\<close> over \<^verbatim>\<open>values(json.object)\<close>: every entry
  is updated in place, and the whole is rejected as soon as one task is. The lockfile
  library stores one object under every key of a multi-key block; such entries are equal
  and, the world being a function, are updated alike, so entries are held by value.
\<close>

fun reconcile :: "'o world \<Rightarrow> 'o lockfile \<Rightarrow> error + 'o lockfile" where
  "reconcile w [] = Inr []"
| "reconcile w ((key, pkg) # rest) =
     (case updateResolvedSha1 w pkg of
        Inl e \<Rightarrow> Inl e
      | Inr pkg' \<Rightarrow>
          (case reconcile w rest of
             Inl e \<Rightarrow> Inl e
           | Inr rest' \<Rightarrow> Inr ((key, pkg') # rest')))"

section \<open>The Catalog Builder\<close>

datatype src_nix_expr =
    FetchgitTarball string string string string
  | Fetchurl string string string

record package =
  name :: string
  path :: src_nix_expr

datatype line = HEAD | Package package | Close_packages | Close_rec

text \<open>
  The body of the loop of \<open>generateNix\<close> without the \<open>found\<close> set (lines 52 to 62 and
  69 to 83): \<open>Inr None\<close> is \<^verbatim>\<open>continue\<close>, \<open>Inl\<close> an exception of the library, and
  \<open>Inr (Some p)\<close> the block that line 85 prints unless its name was found before.
  \<open>FetchgitTarball file_name url rev sha256\<close> and \<open>Fetchurl name url sha1\<close> carry the values
  of the placeholders of the two templates.
\<close>

definition package_of :: "'o world \<Rightarrow> string \<Rightarrow> 'o entry \<Rightarrow> error + package option" where
  "package_of w depRange dep =
     (let namespace = (case namespaceMatch depRange of Some m \<Rightarrow> m @ ''-'' | None \<Rightarrow> [])
      in case resolved dep of
           None \<Rightarrow> Inr None
         | Some r \<Rightarrow>
             if r = [] then Inr None
             else (case split_generateNix r of
                     (None, sha1) \<Rightarrow> Inl TypeError
                   | (Some pkg_url, sha1) \<Rightarrow>
                       (case url_basename w pkg_url of
                          None \<Rightarrow> Inl TypeError
                        | Some file_name \<Rightarrow>
                            (let https_git_url = is_https_git pkg_url;
                                 cache_file_name =
                                   (case https_git_url of
                                      Some git_url \<Rightarrow> file_name @ ''-'' @ js_string sha1
                                    | None \<Rightarrow> file_name);
                                 full_file_name = namespace @ cache_file_name;
                                 src_nix_expr =
                                   (case https_git_url of
                                      Some git_url \<Rightarrow>
                                        FetchgitTarball file_name git_url (js_string sha1)
                                          (js_string (sha256 dep))
                                    | None \<Rightarrow> Fetchurl file_name pkg_url (js_string sha1))
                             in Inr (Some \<lparr>name = full_file_name,
                                            path = src_nix_expr\<rparr>)))))"

text \<open>
  The loop (lines 51 to 90) with its \<open>found\<close> set: the packages printed, in order, and the
  exception that ended the loop, if any.
\<close>

fun generateNix_loop ::
  "'o world \<Rightarrow> string set \<Rightarrow> 'o lockfile \<Rightarrow> package list \<times> error option" where
  "generateNix_loop w found [] = ([], None)"
| "generateNix_loop w found ((depRange, dep) # rest) =
     (case package_of w depRange dep of
        Inl e \<Rightarrow> ([], Some e)
      | Inr None \<Rightarrow> generateNix_loop w found rest
      | Inr (Some p) \<Rightarrow>
          if name p \<in> found then generateNix_loop w found rest
          else (case generateNix_loop w (insert (name p) found) rest of
                  (ps, r) \<Rightarrow> (p # ps, r)))"

definition generateNix :: "'o world \<Rightarrow> 'o lockfile \<Rightarrow> line list \<times> error option" where
  "generateNix w lockedDependencies =
     (case generateNix_loop w {} lockedDependencies of
        (ps, None) \<Rightarrow> (HEAD # map Package ps @ [Close_packages, Close_rec], None)
      | (ps, Some e) \<Rightarrow> (HEAD # map Package ps, Some e))"

text \<open>
  The packages that the entries of a lockfile give rise to, in order, up to the first
  exception: what the loop would print if it never looked at \<open>found\<close>.
\<close>

fun candidates :: "'o world \<Rightarrow> 'o lockfile \<Rightarrow> package list" where
  "candidates w [] = []"
| "candidates w ((depRange, dep) # rest) =
     (case package_of w depRange dep of
        Inl e \<Rightarrow> []
      | Inr None \<Rightarrow> candidates w rest
      | Inr (Some p) \<Rightarrow> p # candidates w rest)"

section \<open>Main\<close>

text \<open>
  \<^verbatim>\<open>equal\<close> of the package \<^verbatim>\<open>deep-equal\<close> on two lockfile objects: the same keys, in any
  order, and equal entries under every key.
\<close>

definition equal :: "'o lockfile \<Rightarrow> 'o lockfile \<Rightarrow> bool" where
  "equal a b =
     (set (map fst a) = set (map fst b) \<and> (\<forall>k \<in> set (map fst a). map_of a k = map_of b k))"

record options =
  no_nix :: bool
  no_patch :: bool

text \<open>
  What a run leaves behind: the exit status, the string handed to \<^verbatim>\<open>fs.writeFileSync\<close> for
  the path of \<^verbatim>\<open>--lockfile\<close> (\<open>None\<close> when the call is never made), and the lines on standard
  output. \<open>data\<close> is the content of that file when the run starts. An uncaught exception
  ends Node with status 1, and so does \<^verbatim>\<open>process.exit(1)\<close>; a write is taken to succeed.
\<close>

record outcome =
  exit_code :: nat
  written :: "string option"
  stdout :: "line list"

definition disk_after :: "string \<Rightarrow> outcome \<Rightarrow> string" where
  "disk_after data out = (case written out of None \<Rightarrow> data | Some s \<Rightarrow> s)"

definition main :: "'o world \<Rightarrow> options \<Rightarrow> string \<Rightarrow> outcome" where
  "main w opts data =
     (case lockfile_parse w data of
        None \<Rightarrow> \<lparr>exit_code = 1, written = None, stdout = []\<rparr>
      | Some object \<Rightarrow>
          (case reconcile w object of
             Inl e \<Rightarrow> \<lparr>exit_code = 1, written = None, stdout = []\<rparr>
           | Inr object' \<Rightarrow>
               (let changed =
                      (case lockfile_parse w data of
                         None \<Rightarrow> True
                       | Some origObject \<Rightarrow> \<not> equal origObject object')
                in if changed \<and> no_patch opts
                   then \<lparr>exit_code = 1, written = None, stdout = []\<rparr>
                   else (let patch =
                               (if changed then Some (lockfile_stringify w object') else None)
                         in if no_nix opts
                            then \<lparr>exit_code = 0, written = patch, stdout = []\<rparr>
                            else (case generateNix w object' of
                                    (out, None) \<Rightarrow>
                                      \<lparr>exit_code = 0, written = patch, stdout = out\<rparr>
                                  | (out, Some e) \<Rightarrow>
                                      \<lparr>exit_code = 1, written = patch, stdout = out\<rparr>)))))"

section \<open>Statements of the specification\<close>

text \<open>
  An entry that already carries its integrity data, in the words of the specification:
  an entry with a \<open>resolved\<close> field that is not the empty string has a token that is not
  empty, and when its url is a source-control url, the resolution tool succeeds on the
  repository url and the token, and the entry's \<open>sha256\<close> is what the tool returns.
\<close>

definition fully_hashed :: "'o world \<Rightarrow> 'o entry \<Rightarrow> bool" where
  "fully_hashed w pkg =
     (case resolved pkg of
        None \<Rightarrow> True
      | Some r \<Rightarrow>
          r = [] \<or>
          (case split_updateResolvedSha1 r of
             (Some url, Some token) \<Rightarrow>
               token \<noteq> [] \<and>
               (case is_https_git url of
                  None \<Rightarrow> True
                | Some git_url \<Rightarrow>
                    (case sha256 pkg of
                       None \<Rightarrow> False
                     | Some h \<Rightarrow> nix_prefetch_git w git_url token = Inr h))
           | _ \<Rightarrow> False))"

text \<open>
  The repository url as the specification words it: the url with a leading \<^verbatim>\<open>git+\<close>
  removed when there is one.
\<close>

definition spec_strip_git_plus :: "string \<Rightarrow> string" where
  "spec_strip_git_plus url = (if prefix ''git+'' url then drop 4 url else url)"


section \<open>An example world\<close>

text \<open>
  A world to run the model in. Its \<open>url_basename\<close> is the text after the last slash of
  the url up to a question mark, which is what the Node library returns for a url of the
  form \<^verbatim>\<open>scheme://host/dir/file\<close>. Its digest function knows the SHA-1 of \<^verbatim>\<open>abc\<close>.
\<close>

definition last_segment :: "string \<Rightarrow> string option" where
  "last_segment u =
     Some (rev (takeWhile (\<lambda>c. c \<noteq> CHR ''/'') (rev (takeWhile (\<lambda>c. c \<noteq> CHR ''?'') u))))"

definition example_world :: "unit lockfile \<Rightarrow> unit world" where
  "example_world lf =
     \<lparr>https_get = (\<lambda>u. if u = ''https://example.com/a-1.0.0.tgz''
                         then Inr (200, [''ab'', ''c''])
                         else if u = ''https://example.com/gone.tgz''
                         then Inr (404, [])
                         else Inl TransportError),
      sha1_hex = (\<lambda>b. if b = ''abc'' then ''a9993e364706816aba3e25717850c26c9cd0d89d''
                        else ''da39a3ee5e6b4b0d3255bfef95601890afd80709''),
      nix_prefetch_git = (\<lambda>u r. if u = ''https://example.com/repo.git'' \<and> r = ''deadbeef''
                                  then Inr ''0abc'' else Inl ExecError),
      url_basename = last_segment,
      lockfile_parse = (\<lambda>d. if d = ''yarn.lock'' then Some lf else None),
      lockfile_stringify = (\<lambda>obj. ''patched'')\<rparr>"

definition lock_entry :: "string \<Rightarrow> unit entry" where
  "lock_entry r = \<lparr>resolved = Some r, sha256 = None, other = ()\<rparr>"

text \<open>Two entries that share a file name, followed by a third with another name.\<close>

definition example_duplicates :: "unit lockfile" where
  "example_duplicates =
     [(''a@^1.0.0'', lock_entry ''https://h/x.tgz#1''),
      (''a@^1.1.0'', lock_entry ''https://h/x.tgz#2''),
      (''b@^2.0.0'', lock_entry ''https://h/y.tgz#3'')]"

text \<open>
  A lockfile whose entries carry their hashes (a plain url and a source-control url), one
  whose only entry lacks its hash, and one with an entry whose url answers 404.
\<close>


definition example_hashed :: "unit lockfile" where
  "example_hashed =
     [(''a@^1.0.0'', lock_entry ''https://example.com/a-1.0.0.tgz#1f''),
      (''repo@^1.0.0'',
       \<lparr>resolved = Some ''git+https://example.com/repo.git#deadbeef'',
        sha256 = Some ''0abc'', other = ()\<rparr>)]"

definition example_missing :: "unit lockfile" where
  "example_missing = [(''a@^1.0.0'', lock_entry ''https://example.com/a-1.0.0.tgz'')]"

definition example_failing :: "unit lockfile" where
  "example_failing =
     [(''a@^1.0.0'', lock_entry ''https://example.com/a-1.0.0.tgz#1f''),
      (''gone@^1.0.0'', lock_entry ''https://example.com/gone.tgz'')]"

section \<open>Properties of the split\<close>

lemma js_split_not_Nil: "js_split c s \<noteq> []"
  by (induction s) (auto split: list.splits)

lemma js_split_append:
  "c \<notin> set u \<Longrightarrow> js_split c (u @ c # rest) = u # js_split c rest"
  by (induction u) auto

lemma js_split_first_piece: "\<exists>ps. js_split c s = takeWhile (\<lambda>x. x \<noteq> c) s # ps"
  by (induction s) auto

lemma destructure2_split:
  "c \<notin> set u \<Longrightarrow>
     destructure2 (js_split c (u @ c # rest)) = (Some u, Some (takeWhile (\<lambda>x. x \<noteq> c) rest))"
  using js_split_first_piece [of c rest] by (auto simp: js_split_append destructure2_def)

lemma destructure2_take2: "destructure2 (take 2 xs) = destructure2 xs"
  by (cases xs; simp add: destructure2_def split: list.splits)

text \<open>The limit of line 126 changes nothing: only the first two pieces are ever read.\<close>

lemma split_same: "split_updateResolvedSha1 r = split_generateNix r"
  by (simp add: split_updateResolvedSha1_def split_generateNix_def js_split_limit_def
      destructure2_take2)

lemma spec_split_last_one_hash:
  "CHR ''#'' \<notin> set u \<Longrightarrow> CHR ''#'' \<notin> set rest \<Longrightarrow>
     spec_split_last (u @ CHR ''#'' # rest) = (Some u, Some rest)"
  by (simp add: spec_split_last_def takeWhile_append dropWhile_append)

text \<open>
  Claim C1, as amended. Both the Reconciler and the Catalog Builder cut \<open>resolved\<close> at
  its FIRST \<^verbatim>\<open>#\<close>: the url is everything before the first \<^verbatim>\<open>#\<close>, and the token is the text
  between the first \<^verbatim>\<open>#\<close> and the next one (or the end of the string). When \<open>resolved\<close>
  holds exactly one \<^verbatim>\<open>#\<close> this is the split at the last \<^verbatim>\<open>#\<close> that the specification
  describes.
\<close>

theorem split_at_first_hash:
  "CHR ''#'' \<notin> set u \<Longrightarrow>
     split_generateNix (u @ CHR ''#'' # rest) =
       (Some u, Some (takeWhile (\<lambda>c. c \<noteq> CHR ''#'') rest))
   \<and> split_updateResolvedSha1 (u @ CHR ''#'' # rest) =
       (Some u, Some (takeWhile (\<lambda>c. c \<noteq> CHR ''#'') rest))
   \<and> (CHR ''#'' \<notin> set rest \<longrightarrow>
        split_generateNix (u @ CHR ''#'' # rest) = spec_split_last (u @ CHR ''#'' # rest))"
  by (auto simp: split_same spec_split_last_one_hash split_generateNix_def destructure2_split)

theorem split_at_first_hash_witness:
  "split_generateNix ''https://h/a#b#c'' = (Some ''https://h/a'', Some ''b'')
   \<and> split_updateResolvedSha1 ''https://h/a#b#c'' = (Some ''https://h/a'', Some ''b'')"
  using split_at_first_hash [of "''https://h/a''" "''b#c''"] by simp

text \<open>
  Claim C1 as stated fails where \<open>resolved\<close> holds two \<^verbatim>\<open>#\<close>: the split at the last \<^verbatim>\<open>#\<close>
  would give the url \<^verbatim>\<open>https://h/a#b\<close> and the token \<^verbatim>\<open>c\<close>, and the program reads the url
  \<^verbatim>\<open>https://h/a\<close> and the token \<^verbatim>\<open>b\<close>.
\<close>

theorem split_last_hash_counterexample:
  "split_generateNix ''https://h/a#b#c'' = (Some ''https://h/a'', Some ''b'')
   \<and> split_updateResolvedSha1 ''https://h/a#b#c'' = (Some ''https://h/a'', Some ''b'')
   \<and> spec_split_last ''https://h/a#b#c'' = (Some ''https://h/a#b'', Some ''c'')
   \<and> split_generateNix ''https://h/a#b#c'' \<noteq> spec_split_last ''https://h/a#b#c''
   \<and> split_updateResolvedSha1 ''https://h/a#b#c'' \<noteq> spec_split_last ''https://h/a#b#c''"
  by (simp add: split_generateNix_def split_updateResolvedSha1_def js_split_limit_def
      destructure2_def spec_split_last_def)

section \<open>Reconciling an entry without a hash\<close>

text \<open>
  Claim C2 asks for \<open>resolved\<close> to become the url, \<^verbatim>\<open>#\<close> and the digest of the fetched
  body. On the entry \<^verbatim>\<open>https://example.com/a-1.0.0.tgz\<close>, whose body \<^verbatim>\<open>abc\<close> arrives in two
  chunks, the fetch succeeds with the digest of \<^verbatim>\<open>abc\<close>, and \<open>resolved\<close> becomes the
  text of the template of line 131, not interpolated.
\<close>

theorem missing_hash_literal_template:
  "updateResolvedSha1 (example_world lf) (lock_entry ''https://example.com/a-1.0.0.tgz'')
     = Inr (lock_entry ''${url}#${pkg_sha1}'')
   \<and> getSha1 (example_world lf) ''https://example.com/a-1.0.0.tgz''
     = Inr ''a9993e364706816aba3e25717850c26c9cd0d89d''
   \<and> ''${url}#${pkg_sha1}''
     \<noteq> ''https://example.com/a-1.0.0.tgz'' @ ''#'' @ ''a9993e364706816aba3e25717850c26c9cd0d89d''"
  by (simp add: updateResolvedSha1_def lock_entry_def falsy_def js_string_def
      split_updateResolvedSha1_def js_split_limit_def destructure2_def getSha1_def
      example_world_def)

section \<open>Deduplication in the Catalog Builder\<close>

lemma remdups_snoc: "remdups (xs @ [n]) = remdups (filter (\<lambda>x. x \<noteq> n) xs) @ [n]"
  by (induction xs) auto

lemma first_occurrences_snoc:
  "rev (remdups (rev (filter (\<lambda>x. x \<notin> F) ns) @ [n])) =
     n # rev (remdups (rev (filter (\<lambda>x. x \<notin> insert n F) ns)))"
proof -
  have "filter (\<lambda>x. x \<noteq> n) (filter (\<lambda>x. x \<notin> F) ns) = filter (\<lambda>x. x \<notin> insert n F) ns"
    by (induction ns) auto
  then have "filter (\<lambda>x. x \<noteq> n) (rev (filter (\<lambda>x. x \<notin> F) ns)) =
      rev (filter (\<lambda>x. x \<notin> insert n F) ns)"
    by (simp flip: rev_filter)
  then show ?thesis by (simp only: remdups_snoc rev_append rev.simps append.simps)
qed

text \<open>
  The names printed from a state \<open>found\<close> are the first occurrences among the names of the
  candidates that are not in \<open>found\<close>. (\<open>remdups\<close> keeps the last occurrence of every
  element, so between two reversals it keeps the first.)
\<close>

lemma loop_names:
  "map name (fst (generateNix_loop w F lf)) =
     rev (remdups (rev (filter (\<lambda>n. n \<notin> F) (map name (candidates w lf)))))"
proof (induction lf arbitrary: F)
  case Nil
  then show ?case by simp
next
  case (Cons a lf)
  obtain k dep where a: "a = (k, dep)" by (cases a)
  show ?case
  proof (cases "package_of w k dep")
    case (Inl e)
    then show ?thesis by (simp add: a)
  next
    case (Inr po)
    show ?thesis
    proof (cases po)
      case None
      then show ?thesis using Inr Cons.IH by (simp add: a)
    next
      case (Some p)
      show ?thesis
      proof (cases "name p \<in> F")
        case True
        then show ?thesis using Inr Some Cons.IH by (simp add: a)
      next
        case False
        obtain ps r where rest: "generateNix_loop w (insert (name p) F) lf = (ps, r)"
          by (cases "generateNix_loop w (insert (name p) F) lf")
        have "map name ps =
            rev (remdups (rev (filter (\<lambda>n. n \<notin> insert (name p) F) (map name (candidates w lf)))))"
          using Cons.IH [of "insert (name p) F"] rest by simp
        then show ?thesis using False Inr Some rest
          by (simp add: a first_occurrences_snoc)
      qed
    qed
  qed
qed

lemma loop_names_fresh: "n \<in> set (map name (fst (generateNix_loop w F lf))) \<Longrightarrow> n \<notin> F"
  unfolding loop_names by auto

lemma loop_first:
  "p \<in> set (fst (generateNix_loop w F lf)) \<Longrightarrow>
     find (\<lambda>c. name c = name p) (candidates w lf) = Some p"
proof (induction lf arbitrary: F)
  case Nil
  then show ?case by simp
next
  case (Cons a lf)
  obtain k dep where a: "a = (k, dep)" by (cases a)
  show ?case
  proof (cases "package_of w k dep")
    case (Inl e)
    then show ?thesis using Cons.prems by (simp add: a)
  next
    case (Inr po)
    show ?thesis
    proof (cases po)
      case None
      then show ?thesis using Inr Cons by (simp add: a)
    next
      case (Some c)
      show ?thesis
      proof (cases "name c \<in> F")
        case True
        then have in_rest: "p \<in> set (fst (generateNix_loop w F lf))"
          using Cons.prems Inr Some by (simp add: a)
        then have "name p \<notin> F" using loop_names_fresh [of "name p" w F lf] by auto
        then have "name c \<noteq> name p" using True by auto
        then show ?thesis using Inr Some Cons.IH [OF in_rest] by (simp add: a)
      next
        case False
        then have "p = c \<or> p \<in> set (fst (generateNix_loop w (insert (name c) F) lf))"
          using Cons.prems Inr Some by (auto simp: a split: prod.splits)
        then show ?thesis
        proof
          assume "p = c"
          then show ?thesis using Inr Some by (simp add: a)
        next
          assume in_rest: "p \<in> set (fst (generateNix_loop w (insert (name c) F) lf))"
          then have "name p \<notin> insert (name c) F"
            using loop_names_fresh [of "name p" w "insert (name c) F" lf] by auto
          then have "name c \<noteq> name p" by auto
          then show ?thesis using Inr Some Cons.IH [OF in_rest] by (simp add: a)
        qed
      qed
    qed
  qed
qed

text \<open>
  Claim C3. For every lockfile, no name occurs twice among the packages that \<open>generateNix\<close>
  prints; the names printed are the names of the candidates in the order of their first
  occurrences; and the package printed under a name is the first candidate, in the
  order of the lockfile, that bears this name. (The candidates are the packages of the
  entries up to the entry, if there is one, at which the library throws.)
\<close>

theorem generateNix_first_occurrence:
  "distinct (map name (fst (generateNix_loop w {} lf)))
   \<and> map name (fst (generateNix_loop w {} lf)) =
       rev (remdups (rev (map name (candidates w lf))))
   \<and> (\<forall>p \<in> set (fst (generateNix_loop w {} lf)).
         find (\<lambda>c. name c = name p) (candidates w lf) = Some p)"
  using loop_first [of _ w "{}" lf] by (simp add: loop_names)

lemmas eval_defs = package_of_def split_generateNix_def split_updateResolvedSha1_def
  js_split_limit_def destructure2_def js_string_def falsy_def namespaceMatch_def word_char_def
  is_https_git_def suffix_to_prefix example_world_def lock_entry_def last_segment_def
  updateResolvedSha1_def getSha1_def getGitSha1_def generateNix_def equal_def main_def

theorem generateNix_first_occurrence_witness:
  "fst (generateNix_loop (example_world []) {} example_duplicates) =
     [\<lparr>name = ''x.tgz'', path = Fetchurl ''x.tgz'' ''https://h/x.tgz'' ''1''\<rparr>,
      \<lparr>name = ''y.tgz'', path = Fetchurl ''y.tgz'' ''https://h/y.tgz'' ''3''\<rparr>]
   \<and> map name (candidates (example_world []) example_duplicates) =
       [''x.tgz'', ''x.tgz'', ''y.tgz'']
   \<and> find (\<lambda>c. name c = ''x.tgz'') (candidates (example_world []) example_duplicates)
        = Some \<lparr>name = ''x.tgz'', path = Fetchurl ''x.tgz'' ''https://h/x.tgz'' ''1''\<rparr>"
  using generateNix_first_occurrence [of "example_world []" example_duplicates]
  by (simp add: example_duplicates_def eval_defs)

section \<open>The packages of the Catalog Builder\<close>



text \<open>A scope with a hyphen is not matched by \<^verbatim>\<open>\w+\<close>, and gives no prefix.\<close>

lemma namespaceMatch_hyphen: "namespaceMatch ''@my-org/pkg@^1.0.0'' = None"
  by (simp add: namespaceMatch_def word_char_def)

text \<open>An entry whose package is not yet in \<open>found\<close> is printed when the loop reaches it.\<close>

lemma loop_emits:
  "package_of w k dep = Inr (Some \<lparr>name = n, path = src\<rparr>) \<Longrightarrow> n \<notin> found \<Longrightarrow>
     \<exists>ps r. generateNix_loop w found ((k, dep) # rest) = (\<lparr>name = n, path = src\<rparr> # ps, r)"
  by (simp split: prod.splits)

lemma package_of_eq:
  "resolved dep = Some r \<Longrightarrow> r \<noteq> [] \<Longrightarrow>
   split_generateNix r = (Some pkg_url, sha1) \<Longrightarrow>
   url_basename w pkg_url = Some file_name \<Longrightarrow>
   package_of w k dep =
     Inr (Some \<lparr>name = (case namespaceMatch k of Some m \<Rightarrow> m @ ''-'' | None \<Rightarrow> []) @
                        (case is_https_git pkg_url of
                           Some g \<Rightarrow> file_name @ ''-'' @ js_string sha1
                         | None \<Rightarrow> file_name),
                path = (case is_https_git pkg_url of
                          Some g \<Rightarrow> FetchgitTarball file_name g (js_string sha1)
                                      (js_string (sha256 dep))
                        | None \<Rightarrow> Fetchurl file_name pkg_url (js_string sha1))\<rparr>)"
  by (simp add: package_of_def Let_def)




text \<open>
  Claim C6, as amended. When the url part of \<open>resolved\<close> starts with \<^verbatim>\<open>git+https://\<close> or
  ends in \<^verbatim>\<open>.git\<close>, the package printed for the entry is a \<open>FetchgitTarball\<close> whose revision
  is the token and whose repository url is the url part without its first four
  characters when it starts with \<^verbatim>\<open>git+https://\<close>, and the url part unchanged otherwise
  (so a url that only ends in \<^verbatim>\<open>.git\<close> keeps a leading \<^verbatim>\<open>git+\<close>). For
  \<^verbatim>\<open>git+https://example.com/repo.git#deadbeef\<close> the revision is \<^verbatim>\<open>deadbeef\<close> and the
  repository url \<^verbatim>\<open>https://example.com/repo.git\<close>.
\<close>

theorem source_control_descriptor:
  assumes "resolved dep = Some r" and "r \<noteq> []"
    and "split_generateNix r = (Some pkg_url, token)"
    and "prefix ''git+https://'' pkg_url \<or> suffix ''.git'' pkg_url"
    and "url_basename w pkg_url = Some file_name"
    and "full_file_name = (case namespaceMatch key of Some m \<Rightarrow> m @ ''-'' | None \<Rightarrow> [])
           @ file_name @ ''-'' @ js_string token"
    and "full_file_name \<notin> found"
  shows "\<exists>ps err. generateNix_loop w found ((key, dep) # rest) =
           (\<lparr>name = full_file_name,
             path = FetchgitTarball file_name
                      (if prefix ''git+https://'' pkg_url then drop 4 pkg_url else pkg_url)
                      (js_string token) (js_string (sha256 dep))\<rparr> # ps, err)"
proof -
  have git: "is_https_git pkg_url =
      Some (if prefix ''git+https://'' pkg_url then drop 4 pkg_url else pkg_url)"
    using assms(4) by (auto simp: is_https_git_def)
  have "package_of w key dep =
      Inr (Some \<lparr>name = full_file_name,
             path = FetchgitTarball file_name
                      (if prefix ''git+https://'' pkg_url then drop 4 pkg_url else pkg_url)
                      (js_string token) (js_string (sha256 dep))\<rparr>)"
    using package_of_eq [OF assms(1,2,3,5), of key] assms(6) by (simp add: git)
  from loop_emits [OF this assms(7)] show ?thesis .
qed

theorem source_control_descriptor_witness:
  "generateNix_loop (example_world []) {}
     [(''repo@1.0.0'', lock_entry ''git+https://example.com/repo.git#deadbeef'')] =
     ([\<lparr>name = ''repo.git-deadbeef'',
        path = FetchgitTarball ''repo.git'' ''https://example.com/repo.git'' ''deadbeef''
                 ''undefined''\<rparr>], None)"
  using source_control_descriptor [of "lock_entry ''git+https://example.com/repo.git#deadbeef''"
      "''git+https://example.com/repo.git#deadbeef''"
      "''git+https://example.com/repo.git''" "Some ''deadbeef''" "example_world []" "''repo.git''"
      "''repo.git-deadbeef''" "''repo@1.0.0''" "{}" "[]"]
  by (simp add: eval_defs)

text \<open>
  Claim C6 as stated fails on a url that ends in \<^verbatim>\<open>.git\<close> and starts with \<^verbatim>\<open>git+\<close> followed
  by another scheme: \<^verbatim>\<open>git+ssh://example.com/repo.git\<close> is printed with its \<^verbatim>\<open>git+\<close>.
\<close>

theorem git_plus_ssh_counterexample:
  "generateNix_loop (example_world []) {}
     [(''repo@1.0.0'', lock_entry ''git+ssh://example.com/repo.git#deadbeef'')] =
     ([\<lparr>name = ''repo.git-deadbeef'',
        path = FetchgitTarball ''repo.git'' ''git+ssh://example.com/repo.git'' ''deadbeef''
                 ''undefined''\<rparr>], None)
   \<and> spec_strip_git_plus ''git+ssh://example.com/repo.git'' = ''ssh://example.com/repo.git''
   \<and> is_https_git ''git+ssh://example.com/repo.git''
       \<noteq> Some (spec_strip_git_plus ''git+ssh://example.com/repo.git'')"
  by (simp add: eval_defs spec_strip_git_plus_def)



section \<open>What reconciliation leaves alone\<close>

lemma updateResolvedSha1_frame:
  "updateResolvedSha1 w pkg = Inr pkg' \<Longrightarrow>
     other pkg' = other pkg \<and> (resolved pkg = None \<longrightarrow> pkg' = pkg)"
  by (auto simp: updateResolvedSha1_def split: if_splits prod.splits option.splits sum.splits)

text \<open>
  Claim C9. A reconciliation that completes keeps the keys of the lockfile and their
  order, keeps in every entry all fields other than \<open>resolved\<close> and \<open>sha256\<close>, and
  leaves an entry without a \<open>resolved\<close> field as it is.
\<close>

theorem reconcile_frame:
  "reconcile w lf = Inr lf' \<Longrightarrow>
     map fst lf' = map fst lf
   \<and> map (\<lambda>(key, pkg). other pkg) lf' = map (\<lambda>(key, pkg). other pkg) lf
   \<and> (\<forall>i < length lf. resolved (snd (lf ! i)) = None \<longrightarrow> lf' ! i = lf ! i)"
proof (induction lf arbitrary: lf')
  case Nil
  then show ?case by simp
next
  case (Cons a lf)
  obtain k pkg where a: "a = (k, pkg)" by (cases a)
  from Cons.prems obtain pkg' rest' where
    u: "updateResolvedSha1 w pkg = Inr pkg'" and r: "reconcile w lf = Inr rest'"
    and lf': "lf' = (k, pkg') # rest'"
    by (auto simp: a split: sum.splits)
  note IH = Cons.IH [OF r]
  have nth: "resolved (snd ((a # lf) ! i)) = None \<longrightarrow> lf' ! i = (a # lf) ! i"
    if "i < length (a # lf)" for i
  proof (cases i)
    case 0
    then show ?thesis using updateResolvedSha1_frame [OF u] by (simp add: a lf')
  next
    case (Suc j)
    then show ?thesis using IH that by (simp add: lf')
  qed
  show ?case using IH updateResolvedSha1_frame [OF u] nth by (simp add: a lf')
qed

theorem reconcile_frame_witness:
  "reconcile (example_world [])
     [(''local@1'', \<lparr>resolved = None, sha256 = None, other = ()\<rparr>),
      (''a@1'', lock_entry ''https://example.com/a-1.0.0.tgz'')] =
   Inr [(''local@1'', \<lparr>resolved = None, sha256 = None, other = ()\<rparr>),
        (''a@1'', lock_entry ''${url}#${pkg_sha1}'')]"
  using reconcile_frame [of "example_world []"
     "[(''local@1'', \<lparr>resolved = None, sha256 = None, other = ()\<rparr>),
      (''a@1'', lock_entry ''https://example.com/a-1.0.0.tgz'')]"
     "[(''local@1'', \<lparr>resolved = None, sha256 = None, other = ()\<rparr>),
        (''a@1'', lock_entry ''${url}#${pkg_sha1}'')]"]
  by (simp add: eval_defs)

section \<open>The run as a whole\<close>

lemma updateResolvedSha1_fully_hashed:
  assumes "fully_hashed w pkg"
  shows "updateResolvedSha1 w pkg = Inr pkg"
proof (cases "resolved pkg")
  case None
  then show ?thesis by (simp add: updateResolvedSha1_def)
next
  case (Some r)
  note res = this
  show ?thesis
  proof (cases "r = []")
    case True
    then show ?thesis using res by (simp add: updateResolvedSha1_def)
  next
    case False
    from assms res False obtain url token where
      sp: "split_updateResolvedSha1 r = (Some url, Some token)" and tok: "token \<noteq> []"
      and git: "case is_https_git url of
                  None \<Rightarrow> True
                | Some git_url \<Rightarrow>
                    (case sha256 pkg of
                       None \<Rightarrow> False
                     | Some h \<Rightarrow> nix_prefetch_git w git_url token = Inr h)"
      by (auto simp: fully_hashed_def split: prod.splits option.splits)
    show ?thesis
    proof (cases "is_https_git url")
      case None
      then show ?thesis using res False sp tok
        by (simp add: updateResolvedSha1_def falsy_def)
    next
      case (Some git_url)
      with git obtain h where h: "sha256 pkg = Some h"
        and tool: "nix_prefetch_git w git_url token = Inr h"
        by (auto split: option.splits)
      have "pkg\<lparr>sha256 := Some h\<rparr> = pkg"
        using h by (cases pkg) simp
      then show ?thesis using res False sp tok Some tool
        by (simp add: updateResolvedSha1_def falsy_def getGitSha1_def js_string_def)
    qed
  qed
qed

lemma reconcile_fully_hashed:
  "\<forall>(key, pkg) \<in> set lf. fully_hashed w pkg \<Longrightarrow> reconcile w lf = Inr lf"
  by (induction lf) (auto simp: updateResolvedSha1_fully_hashed)

lemma equal_refl: "equal lf lf"
  by (simp add: equal_def)

text \<open>
  Claim C5. When every entry of the parsed lockfile carries its integrity data,
  reconciliation completes with a lockfile that is deep-equal to the reparse of the file
  (it is the lockfile as it was parsed), and the run does not write the lockfile file.
\<close>

theorem fully_hashed_roundtrip:
  assumes "lockfile_parse w data = Some lf"
    and "\<forall>(key, pkg) \<in> set lf. fully_hashed w pkg"
  shows "\<exists>object'. reconcile w lf = Inr object' \<and> equal lf object' \<and> object' = lf
       \<and> written (main w opts data) = None \<and> disk_after data (main w opts data) = data"
proof -
  have r: "reconcile w lf = Inr lf" using assms(2) by (rule reconcile_fully_hashed)
  have "written (main w opts data) = None"
    using assms(1) r by (simp add: main_def equal_refl split: prod.splits option.splits)
  then show ?thesis using r by (simp add: equal_refl disk_after_def)
qed

theorem fully_hashed_roundtrip_witness:
  "main (example_world example_hashed) \<lparr>no_nix = False, no_patch = False\<rparr> ''yarn.lock'' =
     \<lparr>exit_code = 0, written = None,
      stdout =
        [HEAD,
         Package \<lparr>name = ''a-1.0.0.tgz'',
                  path = Fetchurl ''a-1.0.0.tgz'' ''https://example.com/a-1.0.0.tgz'' ''1f''\<rparr>,
         Package \<lparr>name = ''repo.git-deadbeef'',
                  path = FetchgitTarball ''repo.git'' ''https://example.com/repo.git''
                           ''deadbeef'' ''0abc''\<rparr>,
         Close_packages, Close_rec]\<rparr>"
  using fully_hashed_roundtrip [of "example_world example_hashed" "''yarn.lock''"
      example_hashed "\<lparr>no_nix = False, no_patch = False\<rparr>"]
  by (simp add: example_hashed_def fully_hashed_def eval_defs)

text \<open>
  Claim C7. With \<^verbatim>\<open>--no-patch\<close>, when the reconciled lockfile is not deep-equal to the
  reparse of the file, the run ends with status 1 and never writes the lockfile file,
  whose content stays what it was.
\<close>

theorem no_patch_aborts:
  assumes "no_patch opts"
    and "lockfile_parse w data = Some orig"
    and "reconcile w orig = Inr object'"
    and "\<not> equal orig object'"
  shows "exit_code (main w opts data) = 1 \<and> written (main w opts data) = None
       \<and> disk_after data (main w opts data) = data"
  using assms by (simp add: main_def disk_after_def)

theorem no_patch_aborts_witness:
  "reconcile (example_world example_missing) example_missing =
     Inr [(''a@^1.0.0'', lock_entry ''${url}#${pkg_sha1}'')]
   \<and> main (example_world example_missing) \<lparr>no_nix = False, no_patch = True\<rparr> ''yarn.lock'' =
       \<lparr>exit_code = 1, written = None, stdout = []\<rparr>"
  using no_patch_aborts [of "\<lparr>no_nix = False, no_patch = True\<rparr>"
      "example_world example_missing" "''yarn.lock''" example_missing
      "[(''a@^1.0.0'', lock_entry ''${url}#${pkg_sha1}'')]"]
  by (simp add: example_missing_def eval_defs)

lemma reconcile_Inl:
  "(key, pkg) \<in> set lf \<Longrightarrow> updateResolvedSha1 w pkg = Inl e \<Longrightarrow> \<exists>e'. reconcile w lf = Inl e'"
  by (induction lf) (auto split: sum.splits)

text \<open>
  Claim C8. When the task of some entry of the lockfile fails, the run ends with status
  1, without writing the lockfile file and with nothing on standard output. Hence
  whenever a run prints anything of the catalog, the task of every entry has succeeded.
\<close>

theorem reconcile_failure_aborts:
  assumes "lockfile_parse w data = Some lf"
  shows "((\<exists>(key, pkg) \<in> set lf. \<exists>e. updateResolvedSha1 w pkg = Inl e) \<longrightarrow>
            main w opts data = \<lparr>exit_code = 1, written = None, stdout = []\<rparr>)
       \<and> (stdout (main w opts data) \<noteq> [] \<longrightarrow>
            (\<forall>(key, pkg) \<in> set lf. \<exists>pkg'. updateResolvedSha1 w pkg = Inr pkg'))"
proof -
  have fail: "main w opts data = \<lparr>exit_code = 1, written = None, stdout = []\<rparr>"
    if "(key, pkg) \<in> set lf" and "updateResolvedSha1 w pkg = Inl e" for key pkg e
  proof -
    from reconcile_Inl [OF that] obtain e' where "reconcile w lf = Inl e'" by blast
    then show ?thesis using assms by (simp add: main_def)
  qed
  have "\<exists>pkg'. updateResolvedSha1 w pkg = Inr pkg'"
    if "stdout (main w opts data) \<noteq> []" and "(key, pkg) \<in> set lf" for key pkg
  proof (cases "updateResolvedSha1 w pkg")
    case (Inl e)
    then show ?thesis using fail [OF that(2) Inl] that(1) by simp
  next
    case (Inr pkg')
    then show ?thesis by blast
  qed
  then show ?thesis using fail by blast
qed

theorem reconcile_failure_aborts_witness:
  "updateResolvedSha1 (example_world example_failing) (lock_entry ''https://example.com/gone.tgz'')
     = Inl (RequestFailed 404)
   \<and> main (example_world example_failing) \<lparr>no_nix = False, no_patch = False\<rparr> ''yarn.lock'' =
       \<lparr>exit_code = 1, written = None, stdout = []\<rparr>"
  using reconcile_failure_aborts [of "example_world example_failing" "''yarn.lock''"
      example_failing "\<lparr>no_nix = False, no_patch = False\<rparr>"]
  by (simp add: example_failing_def eval_defs)

end
